theory Spec2Isabelle
  imports Main "HOL-Library.Sublist"
begin

section \<open>Strings\<close>

text \<open>
  A JavaScript string is modelled by its UTF-8 encoding: a \<^typ>\<open>string\<close> is the list of
  the bytes of the text. Every well-formed JavaScript string (one without a lone surrogate)
  has exactly one such encoding. The literals of \<^verbatim>\<open>app.tsx\<close> that are not ASCII are
  spelled out byte by byte.
\<close>

definition newline :: string where
  "newline = [CHR 0x0A]"

definition emoji_calendar :: string where
  "emoji_calendar = [CHR 0xF0, CHR 0x9F, CHR 0x93, CHR 0x85]"

definition emoji_clock :: string where
  "emoji_clock = [CHR 0xF0, CHR 0x9F, CHR 0x95, CHR 0x92]"

definition emoji_pin :: string where
  "emoji_pin = [CHR 0xF0, CHR 0x9F, CHR 0x93, CHR 0x8D]"

definition emoji_link :: string where
  "emoji_link = [CHR 0xF0, CHR 0x9F, CHR 0x94, CHR 0x97]"

definition em_dash :: string where
  "em_dash = [CHR 0xE2, CHR 0x80, CHR 0x94]"

definition i_acute :: string where
  "i_acute = [CHR 0xC3, CHR 0xAD]"

definition o_acute :: string where
  "o_acute = [CHR 0xC3, CHR 0xB3]"

text \<open>
  An optional string of the source (\<^verbatim>\<open>string | undefined\<close>) is a \<^typ>\<open>string option\<close>.
  JavaScript treats both \<^verbatim>\<open>undefined\<close> and the empty string as false.
\<close>

definition truthy :: "string option \<Rightarrow> bool" where
  "truthy v = (case v of None \<Rightarrow> False | Some x \<Rightarrow> x \<noteq> [])"

text \<open>\<^verbatim>\<open>a || b\<close> on optional strings.\<close>

definition or_else :: "string option \<Rightarrow> string option \<Rightarrow> string option" where
  "or_else a b = (if truthy a then a else b)"

subsection \<open>encodeURIComponent\<close>

text \<open>
  \<^verbatim>\<open>encodeURIComponent\<close> keeps the unreserved characters \<^verbatim>\<open>A-Z a-z 0-9 - _ . ! ~ * ' ( )\<close>
  and replaces every other byte of the UTF-8 encoding by \<^verbatim>\<open>%XX\<close>, in upper-case
  hexadecimal.
\<close>

definition uri_unreserved :: "char \<Rightarrow> bool" where
  "uri_unreserved c =
     (c \<in> set (''ABCDEFGHIJKLMNOPQRSTUVWXYZabcdefghijklmnopqrstuvwxyz0123456789-_.!~*()''
        @ [CHR 0x27]))"

definition hex_digit :: "nat \<Rightarrow> char" where
  "hex_digit n = ''0123456789ABCDEF'' ! (n mod 16)"

definition percent_encode :: "char \<Rightarrow> string" where
  "percent_encode c = [CHR ''%'', hex_digit (of_char c div 16), hex_digit (of_char c mod 16)]"

definition encodeURIComponent :: "string \<Rightarrow> string" where
  "encodeURIComponent s = concat (map (\<lambda>c. if uri_unreserved c then [c] else percent_encode c) s)"

subsection \<open>String.prototype.trim\<close>

text \<open>
  The white space and line terminators that \<^verbatim>\<open>trim\<close> removes, each in UTF-8:
  U+0009 to U+000D, U+0020, U+00A0, U+1680, U+2000 to U+200A, U+2028, U+2029, U+202F,
  U+205F, U+3000 and U+FEFF.
\<close>

definition js_whitespace :: "string list" where
  "js_whitespace =
     [[CHR 0x09], [CHR 0x0A], [CHR 0x0B], [CHR 0x0C], [CHR 0x0D], [CHR 0x20],
      [CHR 0xC2, CHR 0xA0],
      [CHR 0xE1, CHR 0x9A, CHR 0x80],
      [CHR 0xE2, CHR 0x80, CHR 0x80], [CHR 0xE2, CHR 0x80, CHR 0x81],
      [CHR 0xE2, CHR 0x80, CHR 0x82], [CHR 0xE2, CHR 0x80, CHR 0x83],
      [CHR 0xE2, CHR 0x80, CHR 0x84], [CHR 0xE2, CHR 0x80, CHR 0x85],
      [CHR 0xE2, CHR 0x80, CHR 0x86], [CHR 0xE2, CHR 0x80, CHR 0x87],
      [CHR 0xE2, CHR 0x80, CHR 0x88], [CHR 0xE2, CHR 0x80, CHR 0x89],
      [CHR 0xE2, CHR 0x80, CHR 0x8A],
      [CHR 0xE2, CHR 0x80, CHR 0xA8], [CHR 0xE2, CHR 0x80, CHR 0xA9],
      [CHR 0xE2, CHR 0x80, CHR 0xAF],
      [CHR 0xE2, CHR 0x81, CHR 0x9F],
      [CHR 0xE3, CHR 0x80, CHR 0x80],
      [CHR 0xEF, CHR 0xBB, CHR 0xBF]]"

text \<open>The number of bytes of the pattern of \<open>ps\<close> that starts the string, 0 when none does.\<close>

definition lead_len :: "string list \<Rightarrow> string \<Rightarrow> nat" where
  "lead_len ps s = (case find (\<lambda>p. prefix p s) ps of None \<Rightarrow> 0 | Some p \<Rightarrow> length p)"

function strip_leading :: "string list \<Rightarrow> string \<Rightarrow> string" where
  "strip_leading ps s =
     (if lead_len ps s = 0 then s else strip_leading ps (drop (lead_len ps s) s))"
  by pat_completeness auto

lemma lead_len_le: "lead_len ps s \<le> length s"
proof (cases "find (\<lambda>p. prefix p s) ps")
  case None
  then show ?thesis by (simp add: lead_len_def)
next
  case (Some p)
  then have "prefix p s" by (auto simp: find_Some_iff)
  then have "length p \<le> length s" by (rule prefix_length_le)
  with Some show ?thesis by (simp add: lead_len_def)
qed

termination strip_leading
proof (relation "measure (\<lambda>(ps, s). length s)")
  show "wf (measure (\<lambda>(ps, s). length s))" by simp
next
  fix ps :: "string list" and s :: string
  assume "lead_len ps s \<noteq> 0"
  moreover have "lead_len ps s \<le> length s" by (rule lead_len_le)
  ultimately show "((ps, drop (lead_len ps s) s), (ps, s)) \<in> measure (\<lambda>(ps, s). length s)"
    by simp
qed

declare strip_leading.simps [simp del]

text \<open>
  \<^verbatim>\<open>s.trim()\<close>: the white space is removed at the start, then at the end (on the reversed
  string, with the patterns reversed).
\<close>

definition trim :: "string \<Rightarrow> string" where
  "trim s = rev (strip_leading (map rev js_whitespace) (rev (strip_leading js_whitespace s)))"

text \<open>
  The vocabulary of the specification: a string that consists only of white space is a
  concatenation of white-space characters (the empty string is the empty concatenation).
\<close>

definition only_whitespace :: "string \<Rightarrow> bool" where
  "only_whitespace s = (\<exists>ws. set ws \<subseteq> set js_whitespace \<and> s = concat ws)"

subsection \<open>Decimal numerals\<close>

text \<open>The digits of a template literal's \<^verbatim>\<open>${n}\<close> for a natural number, most significant first.\<close>

definition digit_char :: "nat \<Rightarrow> char" where
  "digit_char n = ''0123456789'' ! (n mod 10)"

function show_nat :: "nat \<Rightarrow> string" where
  "show_nat n = (if n < 10 then [digit_char n] else show_nat (n div 10) @ [digit_char n])"
  by pat_completeness auto

termination show_nat
  by (relation "measure (\<lambda>n. n)") auto

declare show_nat.simps [simp del]

section \<open>Data model\<close>

text \<open>A thrown \<^verbatim>\<open>Error\<close>, by its message.\<close>

datatype js_error = Error (message: string)

text \<open>\<^verbatim>\<open>e?.message || fallback\<close>\<close>

definition message_or :: "js_error \<Rightarrow> string \<Rightarrow> string" where
  "message_or e fallback = (if message e = [] then fallback else message e)"

text \<open>
  A calendar event as the provider sends it. \<^verbatim>\<open>start\<close> and \<^verbatim>\<open>end\<close> carry either a
  \<^verbatim>\<open>dateTime\<close> (a timed event) or a \<^verbatim>\<open>date\<close> (an all-day event); every field may be
  missing.
\<close>

datatype gtime = GTime (dateTime: "string option") (date_only: "string option")

datatype event =
  Event (summary: "string option") (ev_start: "gtime option") (ev_end: "gtime option")
    (ev_location: "string option") (htmlLink: "string option")

text \<open>An entry of the agenda: \<^verbatim>\<open>{ name, time, raw }\<close>.\<close>

record item =
  name :: string
  time :: string
  raw :: event

text \<open>The body of the POST request that creates an event.\<close>

record event_body =
  body_summary :: string
  body_start_dateTime :: string
  body_end_dateTime :: string
  body_location :: "string option"

text \<open>The outcome of \<^verbatim>\<open>AuthSession.startAsync\<close>: \<^verbatim>\<open>result.type\<close> and
  \<^verbatim>\<open>result.params.access_token\<close>.\<close>

record auth_result =
  result_type :: string
  access_token :: "string option"

text \<open>
  What the program does to the outside, in the order it does it: HTTP requests, the
  authorization prompt, the probe and the opening of a URL, alerts, console warnings and
  the contacts API.
\<close>

datatype effect =
    HttpGet string "(string \<times> string) list" "(string \<times> string) list"
  | HttpPost string event_body "(string \<times> string) list"
  | StartAsync string
  | CanOpenURL string
  | OpenURL string
  | Alert string string
  | ConsoleWarn js_error
  | RequestPermissions
  | GetContacts

text \<open>
  The environment of one user action: the configuration and what each external
  collaborator answers. A collaborator that throws (or whose promise rejects) answers
  \<open>Inl\<close>. \<open>dayjs_format w s p\<close> is \<^verbatim>\<open>dayjs(s).format(p)\<close> (\<open>None\<close> is
  \<^verbatim>\<open>dayjs(undefined)\<close>, the current time), \<open>dayjs_toISOString w s\<close> is
  \<^verbatim>\<open>dayjs(s).toISOString()\<close>, which throws on an invalid date, and
  \<open>month_startISO\<close>, \<open>month_endISO\<close> are
  \<^verbatim>\<open>dayjs().startOf("month").toISOString()\<close> and \<^verbatim>\<open>dayjs().endOf("month").toISOString()\<close>.
\<close>

record world =
  GOOGLE_CLIENT_ID_WEB :: string
  makeRedirectUri :: string
  startAsync :: "string \<Rightarrow> js_error + auth_result option"
  axios_get :: "string \<Rightarrow> (string \<times> string) list \<Rightarrow> (string \<times> string) list
                  \<Rightarrow> js_error + event list option"
  axios_post :: "string \<Rightarrow> event_body \<Rightarrow> (string \<times> string) list \<Rightarrow> js_error + event option"
  canOpenURL :: "string \<Rightarrow> js_error + bool"
  openURL :: "string \<Rightarrow> js_error + unit"
  month_startISO :: string
  month_endISO :: string
  dayjs_format :: "string option \<Rightarrow> string \<Rightarrow> string"
  dayjs_toISOString :: "string \<Rightarrow> js_error + string"
  requestPermissionsAsync :: "js_error + string"
  getContactsAsync :: "js_error + nat"

text \<open>
  The state of the program: the module variable \<^verbatim>\<open>ACCESS_TOKEN\<close> and the state
  variables of the component \<^verbatim>\<open>App\<close>. The agenda \<^verbatim>\<open>items\<close> is an object used as a
  dictionary from day keys to arrays of entries.
\<close>

record state =
  ACCESS_TOKEN :: "string option"
  logged :: bool
  items :: "string \<rightharpoonup> item list"
  loadingEvents :: bool
  title :: string
  date :: string
  start :: string
  end' :: string
  location :: string
  phone :: string
  contactsCount :: nat

section \<open>Configuration\<close>

definition SCOPES :: string where
  "SCOPES = ''https://www.googleapis.com/auth/calendar''"

definition CAL_BASE :: string where
  "CAL_BASE = ''https://www.googleapis.com/calendar/v3''"

section \<open>Session holder\<close>

definition authUrl :: "world \<Rightarrow> string" where
  "authUrl w =
     ''https://accounts.google.com/o/oauth2/v2/auth?'' @
     ''client_id='' @ encodeURIComponent (GOOGLE_CLIENT_ID_WEB w) @ ''&'' @
     ''redirect_uri='' @ encodeURIComponent (makeRedirectUri w) @ ''&'' @
     ''response_type=token&scope='' @ encodeURIComponent SCOPES @
     ''&include_granted_scopes=true&prompt=consent''"

definition sign_in_failed :: js_error where
  "sign_in_failed = Error (''Inicio de sesi'' @ o_acute @ ''n cancelado o fallido'')"

text \<open>
  \<^verbatim>\<open>signInWithGoogle\<close>: the result is the error thrown, or the state with the token
  stored; with it, the effects performed.
\<close>

definition signInWithGoogle :: "world \<Rightarrow> state \<Rightarrow> (js_error + state) \<times> effect list" where
  "signInWithGoogle w s =
     (if GOOGLE_CLIENT_ID_WEB w = []
      then (Inl (Error ''Falta GOOGLE_CLIENT_ID_WEB en app.config.ts (extra)''), [])
      else
        (case startAsync w (authUrl w) of
           Inl e \<Rightarrow> (Inl e, [StartAsync (authUrl w)])
         | Inr None \<Rightarrow> (Inl sign_in_failed, [StartAsync (authUrl w)])
         | Inr (Some result) \<Rightarrow>
             (if result_type result = ''success'' \<and> truthy (access_token result)
              then (Inr (s\<lparr>ACCESS_TOKEN := access_token result\<rparr>), [StartAsync (authUrl w)])
              else (Inl sign_in_failed, [StartAsync (authUrl w)]))))"

definition authHeader :: "state \<Rightarrow> js_error + (string \<times> string) list" where
  "authHeader s =
     (if \<not> truthy (ACCESS_TOKEN s) then Inl (Error ''No autenticado'')
      else Inr [(''Authorization'', ''Bearer '' @ the (ACCESS_TOKEN s))])"

section \<open>Calendar client\<close>

definition events_url :: string where
  "events_url = CAL_BASE @ ''/calendars/primary/events''"

text \<open>
  \<^verbatim>\<open>listEvents\<close>: the arguments of \<^verbatim>\<open>axios.get\<close> are evaluated before the call, so an
  exception of \<^verbatim>\<open>authHeader\<close> leaves before any request is made.
\<close>

definition listEvents :: "world \<Rightarrow> state \<Rightarrow> string \<Rightarrow> string \<Rightarrow> (js_error + event list) \<times> effect list" where
  "listEvents w s timeMinISO timeMaxISO =
     (case authHeader s of
        Inl e \<Rightarrow> (Inl e, [])
      | Inr headers \<Rightarrow>
          (let params = [(''timeMin'', timeMinISO), (''timeMax'', timeMaxISO),
                         (''singleEvents'', ''true''), (''orderBy'', ''startTime'')]
           in (case axios_get w events_url headers params of
                 Inl e \<Rightarrow> (Inl e, [HttpGet events_url headers params])
               | Inr data_items \<Rightarrow>
                   (Inr (case data_items of None \<Rightarrow> [] | Some evs \<Rightarrow> evs),
                    [HttpGet events_url headers params]))))"

record new_event =
  evt_summary :: string
  evt_startISO :: string
  evt_endISO :: string
  evt_location :: "string option"

definition createEvent :: "world \<Rightarrow> state \<Rightarrow> new_event \<Rightarrow> (js_error + event option) \<times> effect list" where
  "createEvent w s evt =
     (let body = \<lparr>body_summary = evt_summary evt,
                  body_start_dateTime = evt_startISO evt,
                  body_end_dateTime = evt_endISO evt,
                  body_location = evt_location evt\<rparr>
      in (case authHeader s of
            Inl e \<Rightarrow> (Inl e, [])
          | Inr auth \<Rightarrow>
              (let headers = auth @ [(''Content-Type'', ''application/json'')]
               in (axios_post w events_url body headers, [HttpPost events_url body headers]))))"

section \<open>Message composer and deep-link dispatcher\<close>

record wa_fields =
  wa_title :: string
  wa_start :: string
  wa_end :: string
  wa_location :: "string option"
  wa_link :: "string option"

definition buildWhatsAppText :: "wa_fields \<Rightarrow> string" where
  "buildWhatsAppText p =
     emoji_calendar @ '' *'' @ wa_title p @ ''*'' @ newline @
     emoji_clock @ '' '' @ wa_start p @ '' - '' @ wa_end p @ newline @
     emoji_pin @ '' '' @ (if truthy (wa_location p) then the (wa_location p) else em_dash) @ newline @
     (if truthy (wa_link p) then emoji_link @ '' '' @ the (wa_link p) else [])"

definition sendWhatsAppMessage :: "world \<Rightarrow> string \<Rightarrow> string option \<Rightarrow> (js_error + unit) \<times> effect list" where
  "sendWhatsAppMessage w text phone_opt =
     (let encoded = encodeURIComponent text;
          url = (if truthy phone_opt
                 then ''whatsapp://send?phone='' @ the phone_opt @ ''&text='' @ encoded
                 else ''whatsapp://send?text='' @ encoded)
      in (case canOpenURL w ''whatsapp://send'' of
            Inl e \<Rightarrow> (Inl e, [CanOpenURL ''whatsapp://send''])
          | Inr canOpen \<Rightarrow>
              (if canOpen
               then (openURL w url, [CanOpenURL ''whatsapp://send'', OpenURL url])
               else
                 (let web = (if truthy phone_opt
                             then ''https://wa.me/'' @ the phone_opt @ ''?text='' @ encoded
                             else ''https://wa.me/?text='' @ encoded)
                  in (openURL w web, [CanOpenURL ''whatsapp://send'', OpenURL web])))))"

section \<open>View and controller\<close>

subsection \<open>Refresh of the agenda\<close>

text \<open>\<^verbatim>\<open>e?.start?.dateTime || e?.start?.date\<close>, and the same for the end.\<close>

definition effective :: "gtime option \<Rightarrow> string option" where
  "effective t = (case t of None \<Rightarrow> None | Some g \<Rightarrow> or_else (dateTime g) (date_only g))"

definition day_key :: "world \<Rightarrow> event \<Rightarrow> string" where
  "day_key w e = dayjs_format w (effective (ev_start e)) ''YYYY-MM-DD''"

definition to_item :: "world \<Rightarrow> event \<Rightarrow> item" where
  "to_item w e =
     (let s = effective (ev_start e); f = effective (ev_end e)
      in \<lparr>name = (if truthy (summary e) then the (summary e)
                  else ''(Sin t'' @ i_acute @ ''tulo)''),
          time = (if truthy s \<and> truthy f
                  then dayjs_format w s ''HH:mm'' @ '' - '' @ dayjs_format w f ''HH:mm''
                  else ''Todo el d'' @ i_acute @ ''a''),
          raw = e\<rparr>)"

text \<open>
  One round of the \<^verbatim>\<open>forEach\<close>: the array of the key is created when the key is new, and
  the entry is pushed at its end. The keys are results of \<^verbatim>\<open>dayjs(s).format("YYYY-MM-DD")\<close>,
  which never names a property that the object \<^verbatim>\<open>map\<close> inherits, so \<^verbatim>\<open>map[key]\<close> is
  undefined exactly for a key with no entry yet.
\<close>

definition agenda_push :: "world \<Rightarrow> (string \<rightharpoonup> item list) \<Rightarrow> event \<Rightarrow> (string \<rightharpoonup> item list)" where
  "agenda_push w m e =
     (let key = day_key w e;
          m1 = (case m key of None \<Rightarrow> m(key \<mapsto> []) | Some _ \<Rightarrow> m)
      in m1(key \<mapsto> the (m1 key) @ [to_item w e]))"

definition build_agenda :: "world \<Rightarrow> event list \<Rightarrow> (string \<rightharpoonup> item list)" where
  "build_agenda w events = foldl (agenda_push w) Map.empty events"

definition loadMonthEvents :: "world \<Rightarrow> state \<Rightarrow> state \<times> effect list" where
  "loadMonthEvents w s =
     (let s1 = s\<lparr>loadingEvents := True\<rparr>
      in (case listEvents w s1 (month_startISO w) (month_endISO w) of
            (Inr events, tr) \<Rightarrow>
              (s1\<lparr>items := build_agenda w events, loadingEvents := False\<rparr>, tr)
          | (Inl e, tr) \<Rightarrow>
              (s1\<lparr>loadingEvents := False\<rparr>, tr @ [ConsoleWarn e])))"

subsection \<open>Login\<close>

definition handleLogin :: "world \<Rightarrow> state \<Rightarrow> state \<times> effect list" where
  "handleLogin w s =
     (case signInWithGoogle w s of
        (Inl e, tr) \<Rightarrow>
          (s, tr @ [Alert ''Error'' (message_or e (''No se pudo iniciar sesi'' @ o_acute @ ''n.''))])
      | (Inr s1, tr) \<Rightarrow>
          (let (s2, tr2) = loadMonthEvents w (s1\<lparr>logged := True\<rparr>)
           in (s2, tr @ tr2)))"

subsection \<open>Creation of an event\<close>

definition create_failed :: "js_error \<Rightarrow> effect" where
  "create_failed e = Alert ''Error'' (message_or e ''No se pudo crear el evento.'')"

definition onCreateEvent :: "world \<Rightarrow> state \<Rightarrow> state \<times> effect list" where
  "onCreateEvent w s =
     (if trim (title s) = []
      then (s, [Alert (''Falta t'' @ i_acute @ ''tulo'') (''Ingresa un t'' @ i_acute @ ''tulo.'')])
      else
        (case dayjs_toISOString w (date s @ '' '' @ start s) of
           Inl e \<Rightarrow> (s, [create_failed e])
         | Inr startISO \<Rightarrow>
        (case dayjs_toISOString w (date s @ '' '' @ end' s) of
           Inl e \<Rightarrow> (s, [create_failed e])
         | Inr endISO \<Rightarrow>
        (case createEvent w s \<lparr>evt_summary = trim (title s), evt_startISO = startISO,
                                evt_endISO = endISO, evt_location = Some (trim (location s))\<rparr> of
           (Inl e, tr1) \<Rightarrow> (s, tr1 @ [create_failed e])
         | (Inr evt, tr1) \<Rightarrow>
        (let text = buildWhatsAppText
                      \<lparr>wa_title = trim (title s),
                       wa_start = date s @ '' '' @ start s,
                       wa_end = date s @ '' '' @ end' s,
                       wa_location = Some (trim (location s)),
                       wa_link = (case evt of None \<Rightarrow> None | Some ev \<Rightarrow> htmlLink ev)\<rparr>
         in (case sendWhatsAppMessage w text (if phone s = [] then None else Some (phone s)) of
               (Inl e, tr2) \<Rightarrow> (s, tr1 @ tr2 @ [create_failed e])
             | (Inr _, tr2) \<Rightarrow>
                 (let (s2, tr3) = loadMonthEvents w (s\<lparr>title := []\<rparr>)
                  in (s2, tr1 @ tr2 @ [Alert ''Listo'' ''Evento creado y WhatsApp abierto.''] @ tr3))))))))"

subsection \<open>Import of the contacts\<close>

text \<open>\<^verbatim>\<open>importContacts\<close> has no handler of its own: a rejection leaves the state as it is.\<close>

definition importContacts :: "world \<Rightarrow> state \<Rightarrow> state \<times> effect list" where
  "importContacts w s =
     (case requestPermissionsAsync w of
        Inl e \<Rightarrow> (s, [RequestPermissions])
      | Inr status \<Rightarrow>
          (if status \<noteq> ''granted''
           then (s, [RequestPermissions, Alert ''Permiso'' ''Acceso a contactos denegado.''])
           else
             (case getContactsAsync w of
                Inl e \<Rightarrow> (s, [RequestPermissions, GetContacts])
              | Inr n \<Rightarrow>
                  (s\<lparr>contactsCount := n\<rparr>,
                   [RequestPermissions, GetContacts,
                    Alert ''Contactos'' (''Se cargaron '' @ show_nat n @ '' contactos (solo local).'')]))))"

subsection \<open>User actions\<close>

text \<open>
  The controls of the screen: the four buttons and the six text inputs. Each action runs
  to its end before the next one starts, against the environment of its own.
\<close>

datatype action =
    PressLogin
  | PressCreate
  | PressImportContacts
  | PressRefresh
  | ChangeTitle string
  | ChangeDate string
  | ChangeStart string
  | ChangeEnd string
  | ChangeLocation string
  | ChangePhone string

fun step :: "world \<Rightarrow> action \<Rightarrow> state \<Rightarrow> state \<times> effect list" where
  "step w PressLogin s = handleLogin w s"
| "step w PressCreate s = onCreateEvent w s"
| "step w PressImportContacts s = importContacts w s"
| "step w PressRefresh s = loadMonthEvents w s"
| "step w (ChangeTitle t) s = (s\<lparr>title := t\<rparr>, [])"
| "step w (ChangeDate t) s = (s\<lparr>date := t\<rparr>, [])"
| "step w (ChangeStart t) s = (s\<lparr>start := t\<rparr>, [])"
| "step w (ChangeEnd t) s = (s\<lparr>end' := t\<rparr>, [])"
| "step w (ChangeLocation t) s = (s\<lparr>location := t\<rparr>, [])"
| "step w (ChangePhone t) s = (s\<lparr>phone := t\<rparr>, [])"

fun run :: "(world \<times> action) list \<Rightarrow> state \<Rightarrow> state \<times> effect list" where
  "run [] s = (s, [])"
| "run ((w, a) # rest) s =
     (let (s1, tr1) = step w a s; (s2, tr2) = run rest s1 in (s2, tr1 @ tr2))"

section \<open>The date library on a device at a fixed offset from UTC\<close>

text \<open>
  \<^verbatim>\<open>dayjs\<close> is a library outside the repository; the program depends on it through
  \<open>dayjs_format\<close> and \<open>dayjs_toISOString\<close> of the environment. This section gives these two
  functions for a device whose local time is \<open>off\<close> minutes ahead of UTC all year, on the
  date strings that the provider and the form produce:
  \<^item> \<^verbatim>\<open>YYYY-MM-DD\<close>, an all-day date, read as local midnight;
  \<^item> \<^verbatim>\<open>YYYY-MM-DD HH:mm\<close>, the form's date and time, read as local time;
  \<^item> \<^verbatim>\<open>YYYY-MM-DDTHH:mm:ssZ\<close>, an instant in UTC;
  \<^item> \<^verbatim>\<open>YYYY-MM-DDTHH:mm:ss+HH:mm\<close> (or \<^verbatim>\<open>-HH:mm\<close>), an instant with its offset;
  each with a year from 1000 on and fields of a real calendar date and time of day. An
  instant is counted in minutes since 1970-01-01T00:00Z. \<^verbatim>\<open>format\<close> renders an instant
  in local time. What the library does on any other input is left to a parameter.
\<close>

definition is_digit :: "char \<Rightarrow> bool" where
  "is_digit c = (c \<in> set ''0123456789'')"

definition digit_value :: "char \<Rightarrow> int" where
  "digit_value c = int (of_char c) - 48"

definition number_of :: "string \<Rightarrow> int" where
  "number_of ds = foldl (\<lambda>n c. 10 * n + digit_value c) 0 ds"

definition digits_at :: "string \<Rightarrow> nat \<Rightarrow> nat \<Rightarrow> int option" where
  "digits_at s i n =
     (let ds = take n (drop i s)
      in if length ds = n \<and> list_all is_digit ds then Some (number_of ds) else None)"

definition char_at :: "string \<Rightarrow> nat \<Rightarrow> char \<Rightarrow> bool" where
  "char_at s i c = (i < length s \<and> s ! i = c)"

definition is_leap :: "int \<Rightarrow> bool" where
  "is_leap y = (y mod 4 = 0 \<and> (y mod 100 \<noteq> 0 \<or> y mod 400 = 0))"

definition days_in_month :: "int \<Rightarrow> int \<Rightarrow> int" where
  "days_in_month y m =
     (if m = 2 then (if is_leap y then 29 else 28)
      else if m = 4 \<or> m = 6 \<or> m = 9 \<or> m = 11 then 30 else 31)"

text \<open>The number of days from 1970-01-01 to a date of the Gregorian calendar, and back.\<close>

definition days_from_civil :: "int \<Rightarrow> int \<Rightarrow> int \<Rightarrow> int" where
  "days_from_civil y m d =
     (let y1 = (if m \<le> 2 then y - 1 else y);
          era = y1 div 400;
          yoe = y1 - era * 400;
          doy = (153 * (if m > 2 then m - 3 else m + 9) + 2) div 5 + d - 1;
          doe = yoe * 365 + yoe div 4 - yoe div 100 + doy
      in era * 146097 + doe - 719468)"

definition civil_from_days :: "int \<Rightarrow> int \<times> int \<times> int" where
  "civil_from_days z =
     (let z1 = z + 719468;
          era = z1 div 146097;
          doe = z1 - era * 146097;
          yoe = (doe - doe div 1460 + doe div 36524 - doe div 146096) div 365;
          doy = doe - (365 * yoe + yoe div 4 - yoe div 100);
          mp = (5 * doy + 2) div 153;
          d = doy - (153 * mp + 2) div 5 + 1;
          m = (if mp < 10 then mp + 3 else mp - 9)
      in ((if m \<le> 2 then yoe + era * 400 + 1 else yoe + era * 400), m, d))"

definition parse_ymd :: "string \<Rightarrow> (int \<times> int \<times> int) option" where
  "parse_ymd s =
     (case (digits_at s 0 4, digits_at s 5 2, digits_at s 8 2) of
        (Some y, Some m, Some d) \<Rightarrow>
          (if char_at s 4 CHR ''-'' \<and> char_at s 7 CHR ''-'' \<and> 1000 \<le> y \<and>
              1 \<le> m \<and> m \<le> 12 \<and> 1 \<le> d \<and> d \<le> days_in_month y m
           then Some (y, m, d) else None)
      | _ \<Rightarrow> None)"

text \<open>The minutes of the time of day \<^verbatim>\<open>HH:mm\<close> written from position \<open>i\<close>.\<close>

definition parse_hm :: "string \<Rightarrow> nat \<Rightarrow> int option" where
  "parse_hm s i =
     (case (digits_at s i 2, digits_at s (i + 3) 2) of
        (Some h, Some mi) \<Rightarrow>
          (if char_at s (i + 2) CHR '':'' \<and> h \<le> 23 \<and> mi \<le> 59 then Some (h * 60 + mi) else None)
      | _ \<Rightarrow> None)"

definition parse_ss :: "string \<Rightarrow> nat \<Rightarrow> bool" where
  "parse_ss s i =
     (case digits_at s (i + 1) 2 of
        Some sec \<Rightarrow> char_at s i CHR '':'' \<and> sec \<le> 59
      | None \<Rightarrow> False)"

definition parse_instant :: "int \<Rightarrow> string \<Rightarrow> int option" where
  "parse_instant off s =
     (case parse_ymd s of
        None \<Rightarrow> None
      | Some (y, m, d) \<Rightarrow>
          (let day = days_from_civil y m d * 1440 in
           if length s = 10 then Some (day - off)
           else if length s = 16 \<and> char_at s 10 CHR '' '' then
             (case parse_hm s 11 of
                Some t \<Rightarrow> Some (day + t - off)
              | None \<Rightarrow> None)
           else if length s = 20 \<and> char_at s 10 CHR ''T'' \<and> parse_ss s 16 \<and> char_at s 19 CHR ''Z'' then
             (case parse_hm s 11 of
                Some t \<Rightarrow> Some (day + t)
              | None \<Rightarrow> None)
           else if length s = 25 \<and> char_at s 10 CHR ''T'' \<and> parse_ss s 16 \<and>
                   (char_at s 19 CHR ''+'' \<or> char_at s 19 CHR ''-'') then
             (case (parse_hm s 11, parse_hm s 20) of
                (Some t, Some z) \<Rightarrow> Some (if char_at s 19 CHR ''+'' then day + t - z else day + t + z)
              | _ \<Rightarrow> None)
           else None))"

definition pad :: "nat \<Rightarrow> int \<Rightarrow> string" where
  "pad n v = replicate (n - length (show_nat (nat v))) CHR ''0'' @ show_nat (nat v)"

definition local_format :: "int \<Rightarrow> int \<Rightarrow> string \<Rightarrow> string option" where
  "local_format off t p =
     (let l = t + off; (y, m, d) = civil_from_days (l div 1440); r = l mod 1440
      in if p = ''YYYY-MM-DD'' then Some (pad 4 y @ ''-'' @ pad 2 m @ ''-'' @ pad 2 d)
         else if p = ''HH:mm'' then Some (pad 2 (r div 60) @ '':'' @ pad 2 (r mod 60))
         else None)"

definition dayjs_format_at ::
    "int \<Rightarrow> (string option \<Rightarrow> string \<Rightarrow> string) \<Rightarrow> string option \<Rightarrow> string \<Rightarrow> string" where
  "dayjs_format_at off other s p =
     (case s of
        None \<Rightarrow> other s p
      | Some str \<Rightarrow>
          (case parse_instant off str of
             None \<Rightarrow> other s p
           | Some t \<Rightarrow> (case local_format off t p of None \<Rightarrow> other s p | Some r \<Rightarrow> r)))"

definition dayjs_toISOString_at :: "int \<Rightarrow> (string \<Rightarrow> js_error + string) \<Rightarrow> string \<Rightarrow> js_error + string" where
  "dayjs_toISOString_at off other s =
     (case parse_instant off s of
        None \<Rightarrow> other s
      | Some t \<Rightarrow>
          (let (y, m, d) = civil_from_days (t div 1440); r = t mod 1440
           in Inr (pad 4 y @ ''-'' @ pad 2 m @ ''-'' @ pad 2 d @ ''T'' @
                   pad 2 (r div 60) @ '':'' @ pad 2 (r mod 60) @ '':00.000Z'')))"

section \<open>Sample environments\<close>

text \<open>
  A device at \<open>off\<close> minutes from UTC on which everything succeeds: the authorization
  returns the token \<^verbatim>\<open>T1\<close>, the provider lists the events \<open>evs\<close> and creates what it is
  asked to, and the messaging application is installed exactly when \<open>app\<close> holds. Outside
  the date strings of the previous section its date library answers as for an invalid
  date.
\<close>

definition device :: "int \<Rightarrow> bool \<Rightarrow> event list \<Rightarrow> world" where
  "device off app evs =
     \<lparr>GOOGLE_CLIENT_ID_WEB = ''1234-abcd.apps.googleusercontent.com'',
      makeRedirectUri = ''mi-calendario://'',
      startAsync = (\<lambda>url. Inr (Some \<lparr>result_type = ''success'', access_token = Some ''T1''\<rparr>)),
      axios_get = (\<lambda>url headers params. Inr (Some evs)),
      axios_post = (\<lambda>url body headers.
        Inr (Some (Event (Some (body_summary body))
                     (Some (GTime (Some (body_start_dateTime body)) None))
                     (Some (GTime (Some (body_end_dateTime body)) None))
                     (body_location body)
                     (Some ''https://www.google.com/calendar/event?eid=e1'')))),
      canOpenURL = (\<lambda>url. Inr app),
      openURL = (\<lambda>url. Inr ()),
      month_startISO = ''2024-06-01T00:00:00.000Z'',
      month_endISO = ''2024-06-30T23:59:59.999Z'',
      dayjs_format = dayjs_format_at off (\<lambda>s p. ''Invalid Date''),
      dayjs_toISOString = dayjs_toISOString_at off (\<lambda>s. Inl (Error ''Invalid time value'')),
      requestPermissionsAsync = Inr ''granted'',
      getContactsAsync = Inr 42\<rparr>"

text \<open>The same device with the authorization cancelled and the provider unreachable.\<close>

definition offline :: "world \<Rightarrow> world" where
  "offline w =
     w\<lparr>startAsync := (\<lambda>url. Inr (Some \<lparr>result_type = ''cancel'', access_token = None\<rparr>)),
       axios_get := (\<lambda>url headers params. Inl (Error ''Network Error'')),
       axios_post := (\<lambda>url body headers. Inl (Error ''Network Error''))\<rparr>"

text \<open>The state of the program when it starts, on a day \<open>today\<close>.\<close>

definition initial :: "string \<Rightarrow> state" where
  "initial today =
     \<lparr>ACCESS_TOKEN = None, logged = False, items = Map.empty, loadingEvents = False,
      title = [], date = today, start = ''10:00'', end' = ''11:00'',
      location = [], phone = [], contactsCount = 0\<rparr>"

text \<open>The event of the end-to-end scenario: a lunch from 12:00 to 13:00 UTC.\<close>

definition lunch :: event where
  "lunch = Event (Some ''Lunch'')
             (Some (GTime (Some ''2024-06-10T12:00:00Z'') None))
             (Some (GTime (Some ''2024-06-10T13:00:00Z'') None))
             None None"



definition bare :: event where
  "bare = Event None None None None None"

text \<open>A signed-in user who has typed a title into the form.\<close>

definition call_form :: state where
  "call_form =
     \<lparr>ACCESS_TOKEN = Some ''T1'', logged = True, items = Map.empty, loadingEvents = False,
      title = '' Call '', date = ''2024-06-11'', start = ''09:00'', end' = ''09:30'',
      location = [], phone = [], contactsCount = 0\<rparr>"

text \<open>A title of a space, a tab and a no-break space.\<close>

definition blank_form :: state where
  "blank_form = call_form\<lparr>title := [CHR 0x20, CHR 0x09, CHR 0xC2, CHR 0xA0]\<rparr>"

section \<open>Vocabulary of the properties\<close>



definition single_line :: "string \<Rightarrow> bool" where
  "single_line s = (CHR 0x0A \<notin> set s)"

text \<open>An optional string that is absent counts as the empty string.\<close>

definition provided :: "string option \<Rightarrow> string" where
  "provided v = (case v of None \<Rightarrow> [] | Some x \<Rightarrow> x)"

text \<open>
  The two URLs of the dispatcher as the specification describes them: the custom scheme
  with the phone and the text as query parameters, and the web address with the phone in
  the path.
\<close>

definition scheme_url :: "string \<Rightarrow> string option \<Rightarrow> string" where
  "scheme_url text phone_opt =
     ''whatsapp://send?'' @
     (if provided phone_opt = [] then [] else ''phone='' @ provided phone_opt @ ''&'') @
     ''text='' @ encodeURIComponent text"

definition web_url :: "string \<Rightarrow> string option \<Rightarrow> string" where
  "web_url text phone_opt =
     ''https://wa.me/'' @ provided phone_opt @ ''?text='' @ encodeURIComponent text"

text \<open>The URLs that a run of effects opens, in order.\<close>

fun opened :: "effect list \<Rightarrow> string list" where
  "opened [] = []"
| "opened (OpenURL u # tr) = u # opened tr"
| "opened (_ # tr) = opened tr"

section \<open>Auxiliary facts\<close>

lemma truthy_provided: "truthy v = (provided v \<noteq> [])"
  by (simp add: truthy_def provided_def split: option.splits)

lemma the_provided: "truthy v \<Longrightarrow> the v = provided v"
  by (auto simp: truthy_def provided_def split: option.splits)

lemma listEvents_logged [simp]:
  "listEvents w (s\<lparr>logged := b\<rparr>) a c = listEvents w s a c"
  by (simp add: listEvents_def authHeader_def)

lemma listEvents_loadingEvents [simp]:
  "listEvents w (s\<lparr>loadingEvents := b\<rparr>) a c = listEvents w s a c"
  by (simp add: listEvents_def authHeader_def)

lemma listEvents_no_alert: "Alert t m \<notin> set (snd (listEvents w s a c))"
  by (simp add: listEvents_def Let_def split: sum.splits)

subsection \<open>The agenda as a function of the events\<close>

lemma agenda_push_apply:
  "agenda_push w m e k =
     (if k = day_key w e then Some ((case m k of None \<Rightarrow> [] | Some xs \<Rightarrow> xs) @ [to_item w e])
      else m k)"
  by (simp add: agenda_push_def Let_def split: option.splits)

lemma foldl_agenda_push:
  "foldl (agenda_push w) m events k =
     (if filter (\<lambda>e. day_key w e = k) events = [] then m k
      else Some ((case m k of None \<Rightarrow> [] | Some xs \<Rightarrow> xs) @
                 map (to_item w) (filter (\<lambda>e. day_key w e = k) events)))"
proof (induction events arbitrary: m)
  case Nil
  then show ?case by simp
next
  case (Cons e events)
  have "foldl (agenda_push w) m (e # events) k = foldl (agenda_push w) (agenda_push w m e) events k"
    by simp
  also have "\<dots> =
     (if filter (\<lambda>e. day_key w e = k) events = [] then agenda_push w m e k
      else Some ((case agenda_push w m e k of None \<Rightarrow> [] | Some xs \<Rightarrow> xs) @
                 map (to_item w) (filter (\<lambda>e. day_key w e = k) events)))"
    by (rule Cons.IH)
  also have "\<dots> =
     (if filter (\<lambda>e. day_key w e = k) (e # events) = [] then m k
      else Some ((case m k of None \<Rightarrow> [] | Some xs \<Rightarrow> xs) @
                 map (to_item w) (filter (\<lambda>e. day_key w e = k) (e # events))))"
    unfolding agenda_push_apply [of w m e k] by simp
  finally show ?case .
qed

lemma build_agenda_apply:
  "build_agenda w events k =
     (if filter (\<lambda>e. day_key w e = k) events = [] then None
      else Some (map (to_item w) (filter (\<lambda>e. day_key w e = k) events)))"
  by (simp add: build_agenda_def foldl_agenda_push)


lemma build_agenda_key:
  "e \<in> set events \<Longrightarrow>
     build_agenda w events (day_key w e) =
       Some (map (to_item w) (filter (\<lambda>x. day_key w x = day_key w e) events))"
  by (auto simp: build_agenda_apply filter_empty_conv)

lemma loadMonthEvents_success:
  assumes "fst (listEvents w s (month_startISO w) (month_endISO w)) = Inr events"
  shows "items (fst (loadMonthEvents w s)) = build_agenda w events"
proof -
  obtain tr where "listEvents w s (month_startISO w) (month_endISO w) = (Inr events, tr)"
    using assms by (cases "listEvents w s (month_startISO w) (month_endISO w)") simp
  then show ?thesis by (simp add: loadMonthEvents_def)
qed

lemma handleLogin_success:
  assumes "fst (signInWithGoogle w s) = Inr s1"
  shows "fst (handleLogin w s) = fst (loadMonthEvents w (s1\<lparr>logged := True\<rparr>))"
proof -
  obtain tr where "signInWithGoogle w s = (Inr s1, tr)"
    using assms by (cases "signInWithGoogle w s") simp
  then show ?thesis by (simp add: handleLogin_def split: prod.splits)
qed

subsection \<open>What each action keeps\<close>

lemma loadMonthEvents_keeps:
  "logged (fst (loadMonthEvents w s)) = logged s \<and>
   ACCESS_TOKEN (fst (loadMonthEvents w s)) = ACCESS_TOKEN s"
  by (simp add: loadMonthEvents_def Let_def split: prod.splits sum.splits)

lemma importContacts_keeps:
  "logged (fst (importContacts w s)) = logged s \<and>
   ACCESS_TOKEN (fst (importContacts w s)) = ACCESS_TOKEN s"
  by (simp add: importContacts_def split: sum.splits)

lemma signInWithGoogle_keeps:
  "(case fst (signInWithGoogle w s) of
      Inl e \<Rightarrow> True
    | Inr s' \<Rightarrow> logged s' = logged s \<and> truthy (ACCESS_TOKEN s'))"
  by (simp add: signInWithGoogle_def split: sum.splits option.splits)

lemma handleLogin_keeps:
  "(logged s \<longrightarrow> logged (fst (handleLogin w s))) \<and>
   (truthy (ACCESS_TOKEN s) \<longrightarrow> truthy (ACCESS_TOKEN (fst (handleLogin w s))))"
proof (cases "fst (signInWithGoogle w s)")
  case (Inl e)
  then obtain tr where "signInWithGoogle w s = (Inl e, tr)"
    by (cases "signInWithGoogle w s") simp
  then show ?thesis by (simp add: handleLogin_def)
next
  case (Inr s1)
  have "truthy (ACCESS_TOKEN s1)"
    using signInWithGoogle_keeps [where w = w and s = s] Inr by simp
  then show ?thesis
    unfolding handleLogin_success [OF Inr]
    using loadMonthEvents_keeps [where w = w and s = "s1\<lparr>logged := True\<rparr>"] by simp
qed

lemma onCreateEvent_keeps:
  "logged (fst (onCreateEvent w s)) = logged s \<and>
   ACCESS_TOKEN (fst (onCreateEvent w s)) = ACCESS_TOKEN s"
proof -
  have "fst (onCreateEvent w s) = s \<or>
        fst (onCreateEvent w s) = fst (loadMonthEvents w (s\<lparr>title := []\<rparr>))"
    by (simp add: onCreateEvent_def Let_def split: sum.splits prod.splits)
  then show ?thesis
    using loadMonthEvents_keeps [where w = w and s = "s\<lparr>title := []\<rparr>"] by auto
qed

lemma step_keeps:
  "(logged s \<longrightarrow> logged (fst (step w a s))) \<and>
   (truthy (ACCESS_TOKEN s) \<longrightarrow> truthy (ACCESS_TOKEN (fst (step w a s))))"
proof (cases a)
  case PressLogin
  then show ?thesis using handleLogin_keeps [where s = s and w = w] by simp
next
  case PressCreate
  then show ?thesis using onCreateEvent_keeps [where s = s and w = w] by simp
next
  case PressImportContacts
  then show ?thesis using importContacts_keeps [where s = s and w = w] by simp
next
  case PressRefresh
  then show ?thesis using loadMonthEvents_keeps [where s = s and w = w] by simp
qed simp_all

lemma run_keeps:
  "(logged s \<longrightarrow> logged (fst (run acts s))) \<and>
   (truthy (ACCESS_TOKEN s) \<longrightarrow> truthy (ACCESS_TOKEN (fst (run acts s))))"
proof (induction acts arbitrary: s)
  case Nil
  then show ?case by simp
next
  case (Cons wa acts)
  obtain w a where wa: "wa = (w, a)" by (cases wa)
  have "fst (run (wa # acts) s) = fst (run acts (fst (step w a s)))"
    using wa by (simp split: prod.splits)
  with step_keeps [where s = s and w = w and a = a] Cons.IH [of "fst (step w a s)"]
  show ?case by simp
qed

lemma login_failure:
  assumes "signInWithGoogle w s = (Inl e, tr)"
  shows "handleLogin w s =
           (s, tr @ [Alert ''Error'' (message_or e (''No se pudo iniciar sesi'' @ o_acute @ ''n.''))]) \<and>
         message_or e (''No se pudo iniciar sesi'' @ o_acute @ ''n.'') \<noteq> []"
  using assms by (simp add: handleLogin_def message_or_def)

subsection \<open>White space\<close>

lemma js_whitespace_nonempty: "[] \<notin> set js_whitespace"
  by (simp add: js_whitespace_def)

lemma lead_len_Nil: "lead_len ps [] = 0"
  using lead_len_le [of ps "[]"] by simp

lemma strip_leading_Nil: "strip_leading ps [] = []"
  by (subst strip_leading.simps) (simp add: lead_len_Nil)

lemma lead_len_all_whitespace:
  "list_all (\<lambda>w. lead_len js_whitespace (w @ rest) = length w) js_whitespace"
  by code_simp

lemma lead_len_whitespace:
  "w \<in> set js_whitespace \<Longrightarrow> lead_len js_whitespace (w @ rest) = length w"
  using lead_len_all_whitespace [of rest] by (simp add: list_all_iff)

lemma strip_leading_whitespace:
  assumes "set ws \<subseteq> set js_whitespace"
  shows "strip_leading js_whitespace (concat ws) = []"
  using assms
proof (induction ws)
  case Nil
  then show ?case by (simp add: strip_leading_Nil)
next
  case (Cons w ws)
  then have w: "w \<in> set js_whitespace" by simp
  then have "w \<noteq> []" using js_whitespace_nonempty by auto
  then have "lead_len js_whitespace (w @ concat ws) \<noteq> 0"
    using lead_len_whitespace [OF w] by simp
  then have "strip_leading js_whitespace (w @ concat ws) = strip_leading js_whitespace (concat ws)"
    by (subst strip_leading.simps) (simp add: lead_len_whitespace [OF w])
  with Cons show ?case by simp
qed

lemma trim_only_whitespace: "only_whitespace s \<Longrightarrow> trim s = []"
  by (auto simp: only_whitespace_def trim_def strip_leading_whitespace strip_leading_Nil)

subsection \<open>Lines\<close>



lemma single_line_append [simp]: "single_line (a @ b) = (single_line a \<and> single_line b)"
  by (auto simp: single_line_def)

lemma single_line_Nil [simp]: "single_line []"
  by (simp add: single_line_def)

lemma single_line_Cons [simp]: "single_line (c # cs) = (c \<noteq> CHR 0x0A \<and> single_line cs)"
  by (auto simp: single_line_def)

lemma single_line_emoji [simp]:
  "single_line emoji_calendar" "single_line emoji_clock" "single_line emoji_pin"
  "single_line emoji_link" "single_line em_dash"
  by (simp_all add: emoji_calendar_def emoji_clock_def emoji_pin_def emoji_link_def em_dash_def)



subsection \<open>The URLs opened\<close>

lemma opened_append [simp]: "opened (a @ b) = opened a @ opened b"
  by (induction a rule: opened.induct) simp_all




lemma opened_create_failed [simp]: "opened [create_failed e] = []"
  by (simp add: create_failed_def)



subsection \<open>The date library at UTC\<close>

lemma utc_noon: "dayjs_format_at 0 other (Some ''2024-06-10T12:00:00Z'') ''HH:mm'' = ''12:00''"
  by code_simp

lemma utc_one: "dayjs_format_at 0 other (Some ''2024-06-10T13:00:00Z'') ''HH:mm'' = ''13:00''"
  by code_simp

lemma utc_day: "dayjs_format_at 0 other (Some ''2024-06-10T12:00:00Z'') ''YYYY-MM-DD'' = ''2024-06-10''"
  by code_simp

lemma lunch_item_utc:
  assumes "dayjs_format w = dayjs_format_at 0 other"
  shows "to_item w lunch = \<lparr>name = ''Lunch'', time = ''12:00 - 13:00'', raw = lunch\<rparr>"
    and "day_key w lunch = ''2024-06-10''"
  using assms utc_noon [of other] utc_one [of other] utc_day [of other]
  by (simp_all add: to_item_def day_key_def lunch_def effective_def or_else_def truthy_def)

section \<open>Calendar client\<close>

text \<open>
  C1. While no session token is stored (\<^verbatim>\<open>ACCESS_TOKEN\<close> is null), \<^verbatim>\<open>listEvents\<close> and
  \<^verbatim>\<open>createEvent\<close> fail with the error \<^verbatim>\<open>No autenticado\<close> and perform no effect at all: in
  particular the HTTP request function is never called.
\<close>

theorem unauthenticated_fails_without_request:
  assumes "ACCESS_TOKEN s = None"
  shows "listEvents w s timeMinISO timeMaxISO = (Inl (Error ''No autenticado''), []) \<and>
         createEvent w s evt = (Inl (Error ''No autenticado''), [])"
  using assms by (simp add: listEvents_def createEvent_def authHeader_def truthy_def)

theorem unauthenticated_fails_without_request_witness:
  "ACCESS_TOKEN (initial ''2024-06-15'') = None \<and>
   listEvents (device 0 True [lunch]) (initial ''2024-06-15'')
      ''2024-06-01T00:00:00.000Z'' ''2024-06-30T23:59:59.999Z''
     = (Inl (Error ''No autenticado''), []) \<and>
   createEvent (device 0 True [lunch]) (initial ''2024-06-15'')
      \<lparr>evt_summary = ''Call'', evt_startISO = ''2024-06-11T09:00:00.000Z'',
       evt_endISO = ''2024-06-11T09:30:00.000Z'', evt_location = Some []\<rparr>
     = (Inl (Error ''No autenticado''), [])"
proof -
  have h: "ACCESS_TOKEN (initial ''2024-06-15'') = None"
    by (simp add: initial_def)
  from unauthenticated_fails_without_request [OF h] show ?thesis
    using h by simp
qed

section \<open>Message composer\<close>




section \<open>Agenda\<close>



text \<open>
  C9. An event placed into the agenda that has no summary is named by the placeholder for
  a missing title, \<open>''(Sin t'' @ i_acute @ ''tulo)''\<close>, and an event whose effective
  start or effective end is absent has as its time the all-day placeholder
  \<open>''Todo el d'' @ i_acute @ ''a''\<close> instead of a time range. A field is absent when it is
  undefined or the empty string.
\<close>

theorem agenda_placeholders:
  assumes "fst (listEvents w s (month_startISO w) (month_endISO w)) = Inr events"
    and "e \<in> set events"
  shows "(\<exists>entries. items (fst (loadMonthEvents w s)) (day_key w e) = Some entries \<and>
            to_item w e \<in> set entries) \<and>
         raw (to_item w e) = e \<and>
         (\<not> truthy (summary e) \<longrightarrow> name (to_item w e) = ''(Sin t'' @ i_acute @ ''tulo)'') \<and>
         (\<not> truthy (effective (ev_start e)) \<or> \<not> truthy (effective (ev_end e)) \<longrightarrow>
            time (to_item w e) = ''Todo el d'' @ i_acute @ ''a'')"
proof -
  have "items (fst (loadMonthEvents w s)) = build_agenda w events"
    using assms(1) by (rule loadMonthEvents_success)
  then have "\<exists>entries. items (fst (loadMonthEvents w s)) (day_key w e) = Some entries \<and>
      to_item w e \<in> set entries"
    using build_agenda_key [OF assms(2), of w] assms(2) by simp
  then show ?thesis by (auto simp: to_item_def Let_def)
qed

theorem agenda_placeholders_witness:
  "fst (listEvents (device 0 True [lunch, bare]) call_form
          (month_startISO (device 0 True [lunch, bare]))
          (month_endISO (device 0 True [lunch, bare]))) = Inr [lunch, bare] \<and>
   bare \<in> set [lunch, bare] \<and>
   \<not> truthy (summary bare) \<and> \<not> truthy (effective (ev_start bare)) \<and>
   name (to_item (device 0 True [lunch, bare]) bare) = ''(Sin t'' @ i_acute @ ''tulo)'' \<and>
   time (to_item (device 0 True [lunch, bare]) bare) = ''Todo el d'' @ i_acute @ ''a''"
proof -
  let ?w = "device 0 True [lunch, bare]"
  have h: "fst (listEvents ?w call_form (month_startISO ?w) (month_endISO ?w)) = Inr [lunch, bare]"
    by (simp add: listEvents_def authHeader_def device_def truthy_def call_form_def)
  have m: "bare \<in> set [lunch, bare]"
    by simp
  have a: "\<not> truthy (summary bare)" "\<not> truthy (effective (ev_start bare))"
    by (simp_all add: bare_def truthy_def effective_def)
  from agenda_placeholders [OF h m] show ?thesis
    using h a by simp
qed

text \<open>
  C6. When the fetch of the events fails during a refresh, the error is written as a
  console warning after whatever the fetch itself did, no alert is shown, and the state is
  the previous one with the loading flag off: the agenda keeps its previous value.
\<close>

theorem refresh_failure_keeps_agenda:
  assumes "fst (listEvents w s (month_startISO w) (month_endISO w)) = Inl e"
  shows "items (fst (loadMonthEvents w s)) = items s \<and>
         fst (loadMonthEvents w s) = s\<lparr>loadingEvents := False\<rparr> \<and>
         snd (loadMonthEvents w s) =
           snd (listEvents w s (month_startISO w) (month_endISO w)) @ [ConsoleWarn e] \<and>
         (\<forall>t m. Alert t m \<notin> set (snd (loadMonthEvents w s)))"
proof -
  obtain tr where l: "listEvents w s (month_startISO w) (month_endISO w) = (Inl e, tr)"
    using assms by (cases "listEvents w s (month_startISO w) (month_endISO w)") simp
  have "\<And>t m. Alert t m \<notin> set tr"
    using listEvents_no_alert [of _ _ w s "month_startISO w" "month_endISO w"] l by simp
  then show ?thesis using l by (simp add: loadMonthEvents_def)
qed

theorem refresh_failure_keeps_agenda_witness:
  "fst (listEvents (offline (device 0 True [lunch])) call_form
          (month_startISO (offline (device 0 True [lunch])))
          (month_endISO (offline (device 0 True [lunch])))) = Inl (Error ''Network Error'') \<and>
   items (fst (loadMonthEvents (offline (device 0 True [lunch])) call_form)) = items call_form \<and>
   fst (loadMonthEvents (offline (device 0 True [lunch])) call_form) =
     call_form\<lparr>loadingEvents := False\<rparr> \<and>
   snd (loadMonthEvents (offline (device 0 True [lunch])) call_form) =
     snd (listEvents (offline (device 0 True [lunch])) call_form
            (month_startISO (offline (device 0 True [lunch])))
            (month_endISO (offline (device 0 True [lunch])))) @
     [ConsoleWarn (Error ''Network Error'')] \<and>
   Alert ''Error'' ''Network Error'' \<notin> set (snd (loadMonthEvents (offline (device 0 True [lunch])) call_form))"
proof -
  let ?w = "offline (device 0 True [lunch])"
  have h: "fst (listEvents ?w call_form (month_startISO ?w) (month_endISO ?w)) =
             Inl (Error ''Network Error'')"
    by (simp add: listEvents_def authHeader_def offline_def device_def truthy_def call_form_def)
  from refresh_failure_keeps_agenda [OF h] show ?thesis
    using h by blast
qed

text \<open>
  C7, as amended. On a device whose local time is UTC: when the sign-in succeeds and
  \<^verbatim>\<open>listEvents\<close> for the current month returns the single event \<^verbatim>\<open>Lunch\<close> from
  \<^verbatim>\<open>2024-06-10T12:00:00Z\<close> to \<^verbatim>\<open>2024-06-10T13:00:00Z\<close>, the agenda has exactly the key
  \<^verbatim>\<open>2024-06-10\<close>, with the one entry named \<^verbatim>\<open>Lunch\<close> and timed \<^verbatim>\<open>12:00 - 13:00\<close>.
\<close>

theorem lunch_scenario_utc:
  assumes "fst (signInWithGoogle w s) = Inr s1"
    and "fst (listEvents w s1 (month_startISO w) (month_endISO w)) = Inr [lunch]"
    and "dayjs_format w = dayjs_format_at 0 other"
  shows "items (fst (handleLogin w s)) =
           [''2024-06-10'' \<mapsto> [\<lparr>name = ''Lunch'', time = ''12:00 - 13:00'', raw = lunch\<rparr>]]"
proof -
  have "items (fst (handleLogin w s)) = build_agenda w [lunch]"
    using handleLogin_success [OF assms(1)]
      loadMonthEvents_success [of w "s1\<lparr>logged := True\<rparr>" "[lunch]"] assms(2)
    by simp
  also have "\<dots> = [''2024-06-10'' \<mapsto> [\<lparr>name = ''Lunch'', time = ''12:00 - 13:00'', raw = lunch\<rparr>]]"
    using lunch_item_utc [OF assms(3)]
    by (simp add: build_agenda_def agenda_push_def Let_def)
  finally show ?thesis .
qed

theorem lunch_scenario_utc_witness:
  "fst (signInWithGoogle (device 0 True [lunch]) (initial ''2024-06-15'')) =
     Inr ((initial ''2024-06-15'')\<lparr>ACCESS_TOKEN := Some ''T1''\<rparr>) \<and>
   fst (listEvents (device 0 True [lunch]) ((initial ''2024-06-15'')\<lparr>ACCESS_TOKEN := Some ''T1''\<rparr>)
          (month_startISO (device 0 True [lunch])) (month_endISO (device 0 True [lunch]))) =
     Inr [lunch] \<and>
   dayjs_format (device 0 True [lunch]) = dayjs_format_at 0 (\<lambda>s p. ''Invalid Date'') \<and>
   items (fst (handleLogin (device 0 True [lunch]) (initial ''2024-06-15''))) =
     [''2024-06-10'' \<mapsto> [\<lparr>name = ''Lunch'', time = ''12:00 - 13:00'', raw = lunch\<rparr>]]"
proof -
  let ?w = "device 0 True [lunch]"
  have h1: "fst (signInWithGoogle ?w (initial ''2024-06-15'')) =
              Inr ((initial ''2024-06-15'')\<lparr>ACCESS_TOKEN := Some ''T1''\<rparr>)"
    by (simp add: signInWithGoogle_def device_def truthy_def)
  have h2: "fst (listEvents ?w ((initial ''2024-06-15'')\<lparr>ACCESS_TOKEN := Some ''T1''\<rparr>)
                  (month_startISO ?w) (month_endISO ?w)) = Inr [lunch]"
    by (simp add: listEvents_def authHeader_def device_def truthy_def)
  have h3: "dayjs_format ?w = dayjs_format_at 0 (\<lambda>s p. ''Invalid Date'')"
    by (simp add: device_def)
  from lunch_scenario_utc [OF h1 h2 h3] show ?thesis
    using h1 h2 h3 by blast
qed

text \<open>
  The scenario as it was stated, for any device, fails where the local time is not UTC:
  three hours behind UTC the same sign-in and the same event give the time
  \<^verbatim>\<open>09:00 - 10:00\<close>.
\<close>

theorem lunch_scenario_counterexample:
  "items (fst (handleLogin (device (- 180) True [lunch]) (initial ''2024-06-15''))) ''2024-06-10'' =
     Some [\<lparr>name = ''Lunch'', time = ''09:00 - 10:00'', raw = lunch\<rparr>]"
  by code_simp

section \<open>Deep-link dispatcher\<close>

text \<open>
  C4. \<^verbatim>\<open>sendWhatsAppMessage\<close> first asks whether the scheme \<^verbatim>\<open>whatsapp://send\<close> can be
  opened. If it can, it opens the scheme URL, which carries the URL-encoded text and the
  phone when one is provided; if it cannot, it opens the web URL under \<^verbatim>\<open>wa.me\<close>, which
  carries the same encoded text and the phone when one is provided.
\<close>

theorem send_probes_then_opens:
  "hd (snd (sendWhatsAppMessage w text phone_opt)) = CanOpenURL ''whatsapp://send'' \<and>
   (canOpenURL w ''whatsapp://send'' = Inr True \<longrightarrow>
      sendWhatsAppMessage w text phone_opt =
        (openURL w (scheme_url text phone_opt),
         [CanOpenURL ''whatsapp://send'', OpenURL (scheme_url text phone_opt)])) \<and>
   (canOpenURL w ''whatsapp://send'' = Inr False \<longrightarrow>
      sendWhatsAppMessage w text phone_opt =
        (openURL w (web_url text phone_opt),
         [CanOpenURL ''whatsapp://send'', OpenURL (web_url text phone_opt)]))"
  by (simp add: sendWhatsAppMessage_def Let_def scheme_url_def web_url_def truthy_provided
        the_provided split: sum.splits)

theorem send_probes_then_opens_witness:
  "canOpenURL (device 0 True []) ''whatsapp://send'' = Inr True \<and>
   canOpenURL (device 0 False []) ''whatsapp://send'' = Inr False \<and>
   hd (snd (sendWhatsAppMessage (device 0 True []) ''Call at 9'' (Some ''5491122334455''))) =
     CanOpenURL ''whatsapp://send'' \<and>
   sendWhatsAppMessage (device 0 True []) ''Call at 9'' (Some ''5491122334455'') =
     (openURL (device 0 True []) (scheme_url ''Call at 9'' (Some ''5491122334455'')),
      [CanOpenURL ''whatsapp://send'',
       OpenURL (scheme_url ''Call at 9'' (Some ''5491122334455''))]) \<and>
   sendWhatsAppMessage (device 0 False []) ''Call at 9'' (Some ''5491122334455'') =
     (openURL (device 0 False []) (web_url ''Call at 9'' (Some ''5491122334455'')),
      [CanOpenURL ''whatsapp://send'',
       OpenURL (web_url ''Call at 9'' (Some ''5491122334455''))]) \<and>
   scheme_url ''Call at 9'' (Some ''5491122334455'') =
     ''whatsapp://send?phone=5491122334455&text=Call%20at%209'' \<and>
   web_url ''Call at 9'' (Some ''5491122334455'') =
     ''https://wa.me/5491122334455?text=Call%20at%209''"
proof -
  have a: "canOpenURL (device 0 True []) ''whatsapp://send'' = Inr True"
    by (simp add: device_def)
  have b: "canOpenURL (device 0 False []) ''whatsapp://send'' = Inr False"
    by (simp add: device_def)
  have c: "scheme_url ''Call at 9'' (Some ''5491122334455'') =
             ''whatsapp://send?phone=5491122334455&text=Call%20at%209''"
    by code_simp
  have d: "web_url ''Call at 9'' (Some ''5491122334455'') =
             ''https://wa.me/5491122334455?text=Call%20at%209''"
    by code_simp
  from send_probes_then_opens [of "device 0 True []" "''Call at 9''" "Some ''5491122334455''"]
       send_probes_then_opens [of "device 0 False []" "''Call at 9''" "Some ''5491122334455''"]
  show ?thesis using a b c d by blast
qed



section \<open>Creation form\<close>

text \<open>
  C5. Submitting the form with a title that is empty or consists only of white space
  shows the validation alert and does nothing else: no request is made, the dispatcher is
  not called, and the state (form fields, agenda, session token) is the one before.
\<close>

theorem blank_title_rejected:
  assumes "only_whitespace (title s)"
  shows "onCreateEvent w s =
           (s, [Alert (''Falta t'' @ i_acute @ ''tulo'') (''Ingresa un t'' @ i_acute @ ''tulo.'')])"
  using trim_only_whitespace [OF assms] by (simp add: onCreateEvent_def)

theorem blank_title_rejected_witness:
  "only_whitespace (title blank_form) \<and>
   only_whitespace (title (initial ''2024-06-15'')) \<and>
   onCreateEvent (device 0 True [lunch]) blank_form =
     (blank_form, [Alert (''Falta t'' @ i_acute @ ''tulo'') (''Ingresa un t'' @ i_acute @ ''tulo.'')]) \<and>
   onCreateEvent (device 0 True [lunch]) (initial ''2024-06-15'') =
     (initial ''2024-06-15'',
      [Alert (''Falta t'' @ i_acute @ ''tulo'') (''Ingresa un t'' @ i_acute @ ''tulo.'')])"
proof -
  have "set [[CHR 0x20], [CHR 0x09], [CHR 0xC2, CHR 0xA0]] \<subseteq> set js_whitespace \<and>
        title blank_form = concat [[CHR 0x20], [CHR 0x09], [CHR 0xC2, CHR 0xA0]]"
    by (simp add: js_whitespace_def blank_form_def)
  then have h: "only_whitespace (title blank_form)"
    unfolding only_whitespace_def by (rule exI)
  have "set [] \<subseteq> set js_whitespace \<and> title (initial ''2024-06-15'') = concat []"
    by (simp add: initial_def)
  then have h0: "only_whitespace (title (initial ''2024-06-15''))"
    unfolding only_whitespace_def by (rule exI)
  from blank_title_rejected [OF h] blank_title_rejected [OF h0] show ?thesis
    using h h0 by blast
qed

section \<open>Session\<close>

text \<open>
  C8. Along every sequence of user actions, each in any environment, a controller that is
  logged in stays logged in and a stored session token stays stored. A sign-in that fails
  leaves the whole state as it was, so a logged-out controller stays logged out, and shows
  an alert with a message that is not empty.
\<close>

theorem login_is_permanent:
  "(logged s \<longrightarrow> logged (fst (run acts s))) \<and>
   (truthy (ACCESS_TOKEN s) \<longrightarrow> truthy (ACCESS_TOKEN (fst (run acts s)))) \<and>
   (\<forall>e tr. signInWithGoogle w s0 = (Inl e, tr) \<longrightarrow>
      handleLogin w s0 =
        (s0, tr @ [Alert ''Error'' (message_or e (''No se pudo iniciar sesi'' @ o_acute @ ''n.''))]) \<and>
      message_or e (''No se pudo iniciar sesi'' @ o_acute @ ''n.'') \<noteq> [])"
  using run_keeps [where s = s and acts = acts] login_failure [where w = w and s = s0]
  by blast

theorem login_is_permanent_witness:
  "logged call_form \<and> truthy (ACCESS_TOKEN call_form) \<and>
   logged (fst (run [(offline (device 0 True [lunch]), PressLogin),
                     (device 0 True [lunch], ChangeTitle ''Call''),
                     (offline (device 0 True [lunch]), PressCreate),
                     (device 0 True [lunch], PressImportContacts),
                     (offline (device 0 True [lunch]), PressRefresh)] call_form)) \<and>
   truthy (ACCESS_TOKEN (fst (run [(offline (device 0 True [lunch]), PressLogin),
                     (device 0 True [lunch], ChangeTitle ''Call''),
                     (offline (device 0 True [lunch]), PressCreate),
                     (device 0 True [lunch], PressImportContacts),
                     (offline (device 0 True [lunch]), PressRefresh)] call_form))) \<and>
   \<not> logged (initial ''2024-06-15'') \<and>
   signInWithGoogle (offline (device 0 True [lunch])) (initial ''2024-06-15'') =
     (Inl sign_in_failed, [StartAsync (authUrl (offline (device 0 True [lunch])))]) \<and>
   handleLogin (offline (device 0 True [lunch])) (initial ''2024-06-15'') =
     (initial ''2024-06-15'',
      [StartAsync (authUrl (offline (device 0 True [lunch]))),
       Alert ''Error'' (message_or sign_in_failed (''No se pudo iniciar sesi'' @ o_acute @ ''n.''))])"
proof -
  let ?w = "offline (device 0 True [lunch])"
  let ?acts = "[(?w, PressLogin), (device 0 True [lunch], ChangeTitle ''Call''),
                (?w, PressCreate), (device 0 True [lunch], PressImportContacts),
                (?w, PressRefresh)]"
  have l: "logged call_form" "truthy (ACCESS_TOKEN call_form)"
    by (simp_all add: call_form_def truthy_def)
  have n: "\<not> logged (initial ''2024-06-15'')"
    by (simp add: initial_def)
  have f: "signInWithGoogle ?w (initial ''2024-06-15'') =
             (Inl sign_in_failed, [StartAsync (authUrl ?w)])"
    by (simp add: signInWithGoogle_def offline_def device_def truthy_def)
  from login_is_permanent [of call_form ?acts ?w "initial ''2024-06-15''"]
  show ?thesis using l n f by simp
qed

end
